theory Spec2Isabelle
  imports Main
begin

section \<open>Data model\<close>

text \<open>
  The interface \<^verbatim>\<open>Cat\<close> of \<^verbatim>\<open>cat.interface.ts\<close>:
  \<^verbatim>\<open>id: number\<close>, \<^verbatim>\<open>name: string\<close>, \<^verbatim>\<open>color?: string\<close>, \<^verbatim>\<open>created: Date\<close>.
  The interface is erased at run time and \<^verbatim>\<open>@Body()\<close> hands the controller the parsed
  body as it came: a create body is \<^verbatim>\<open>{name, color?}\<close>, and it carries an \<^verbatim>\<open>id\<close> or a
  \<^verbatim>\<open>created\<close> only if the caller put one there. So the two fields are optional in the
  record, like \<^verbatim>\<open>color\<close>; \<open>None\<close> is a field that is absent.
  The field \<^verbatim>\<open>id\<close> is called \<open>cat_id\<close> here, since \<open>id\<close> is the identity function of HOL.
  A \<^verbatim>\<open>Date\<close> is its time value, the milliseconds since the epoch.
\<close>

type_synonym Date = int

record Cat =
  cat_id :: "int option"
  name :: string
  color :: "string option"
  created :: "Date option"

section \<open>The in-memory CatsService\<close>

text \<open>
  The first version of \<^verbatim>\<open>cats.service.ts\<close>:
  \<^verbatim>\<open>
  export class CatsService {
    private readonly cats: Cat[] = [];
    create(cat: Cat): Cat { this.cats.push(cat); return cat }
    findAll(): Cat[] { return this.cats; }
  }
  \<close>
  The object is the record of its one field; a method takes the object and returns its
  result together with the object after the call.
\<close>

record CatsService_mem =
  cats_mem :: "Cat list"

definition new_CatsService_mem :: CatsService_mem where
  "new_CatsService_mem = \<lparr>cats_mem = []\<rparr>"

definition CatsService_create_mem :: "CatsService_mem \<Rightarrow> Cat \<Rightarrow> Cat \<times> CatsService_mem" where
  "CatsService_create_mem this cat = (cat, this\<lparr>cats_mem := cats_mem this @ [cat]\<rparr>)"

definition CatsService_findAll_mem :: "CatsService_mem \<Rightarrow> Cat list \<times> CatsService_mem" where
  "CatsService_findAll_mem this = (cats_mem this, this)"

text \<open>A sequence of \<^verbatim>\<open>create\<close> calls, one after the other, on the same object.\<close>

primrec create_each_mem :: "CatsService_mem \<Rightarrow> Cat list \<Rightarrow> CatsService_mem" where
  "create_each_mem this [] = this"
| "create_each_mem this (c # cs) = create_each_mem (snd (CatsService_create_mem this c)) cs"

section \<open>The repository-backed CatsService\<close>

text \<open>
  \<^verbatim>\<open>Repository<CatEntity>\<close> is TypeORM's class; the service calls its methods
  \<^verbatim>\<open>save\<close> and \<^verbatim>\<open>find\<close> (here \<open>repo_save\<close> and \<open>repo_find\<close>) and nothing else.
  The repository is a parameter: two functions on a database state \<open>'db\<close>, each
  returning the settled promise (\<open>Inl\<close> the reason of a rejection, \<open>Inr\<close> the value)
  and the database after the call.
\<close>

type_synonym rejection = string

record 'db Repository =
  repo_save :: "'db \<Rightarrow> Cat \<Rightarrow> (rejection + Cat) \<times> 'db"
  repo_find :: "'db \<Rightarrow> (rejection + Cat list) \<times> 'db"

text \<open>
  \<^verbatim>\<open>
  export class CatsService {
    constructor(@InjectRepository(CatEntity) private repository: Repository<CatEntity>) {}
    private readonly cats: Cat[] = [];
    async create(cat: Cat): Promise<Cat> { return this.repository.save(cat) }
    async findAll(): Promise<Cat[]> { return this.repository.find() }
  }
  \<close>
  The object holds the database behind its repository and the array \<^verbatim>\<open>cats\<close>.
\<close>

record 'db CatsService =
  repository :: 'db
  cats :: "Cat list"

definition new_CatsService :: "'db \<Rightarrow> 'db CatsService" where
  "new_CatsService db = \<lparr>repository = db, cats = []\<rparr>"

definition CatsService_create ::
  "'db Repository \<Rightarrow> 'db CatsService \<Rightarrow> Cat \<Rightarrow> (rejection + Cat) \<times> 'db CatsService" where
  "CatsService_create R this cat =
     (case repo_save R (repository this) cat of (r, db) \<Rightarrow> (r, this\<lparr>repository := db\<rparr>))"

definition CatsService_findAll ::
  "'db Repository \<Rightarrow> 'db CatsService \<Rightarrow> (rejection + Cat list) \<times> 'db CatsService" where
  "CatsService_findAll R this =
     (case repo_find R (repository this) of (r, db) \<Rightarrow> (r, this\<lparr>repository := db\<rparr>))"

section \<open>The CatsController\<close>

text \<open>
  The controller is written against the class name \<^verbatim>\<open>CatsService\<close>; either version of
  the service is injected. The injected service is the pair of its two methods, on the
  service's own state \<open>'s\<close>.
\<close>

record 's Store =
  store_create :: "'s \<Rightarrow> Cat \<Rightarrow> (rejection + Cat) \<times> 's"
  store_findAll :: "'s \<Rightarrow> (rejection + Cat list) \<times> 's"

definition mem_Store :: "CatsService_mem Store" where
  "mem_Store =
     \<lparr>store_create = (\<lambda>s c. case CatsService_create_mem s c of (r, s') \<Rightarrow> (Inr r, s')),
      store_findAll = (\<lambda>s. case CatsService_findAll_mem s of (r, s') \<Rightarrow> (Inr r, s'))\<rparr>"

definition repo_Store :: "'db Repository \<Rightarrow> 'db CatsService Store" where
  "repo_Store R = \<lparr>store_create = CatsService_create R, store_findAll = CatsService_findAll R\<rparr>"

text \<open>
  \<^verbatim>\<open>
  export class CatsController {
    constructor(private catsService: CatsService) {}
    async create(@Body() cat: Cat): Promise<Cat> { return this.catsService.create(cat); }
    async findAll(): Promise<Cat[]> { return this.catsService.findAll(); }
  }
  \<close>
\<close>

record 's CatsController =
  catsService :: 's

definition CatsController_create ::
  "'s Store \<Rightarrow> 's CatsController \<Rightarrow> Cat \<Rightarrow> (rejection + Cat) \<times> 's CatsController" where
  "CatsController_create S this cat =
     (case store_create S (catsService this) cat of (r, s) \<Rightarrow> (r, this\<lparr>catsService := s\<rparr>))"

definition CatsController_findAll ::
  "'s Store \<Rightarrow> 's CatsController \<Rightarrow> (rejection + Cat list) \<times> 's CatsController" where
  "CatsController_findAll S this =
     (case store_findAll S (catsService this) of (r, s) \<Rightarrow> (r, this\<lparr>catsService := s\<rparr>))"

text \<open>
  The routes of the controller: \<^verbatim>\<open>@Post()\<close> is \<^verbatim>\<open>create\<close>, \<^verbatim>\<open>@Get()\<close> is
  \<^verbatim>\<open>findAll\<close>. A run serves a list of requests in order and collects the responses.
\<close>

datatype request = POST_cats Cat | GET_cats

datatype response = One Cat | Many "Cat list"

fun handle ::
  "'s Store \<Rightarrow> 's CatsController \<Rightarrow> request \<Rightarrow> (rejection + response) \<times> 's CatsController" where
  "handle S this (POST_cats cat) =
     (case CatsController_create S this cat of (r, this') \<Rightarrow> (map_sum id One r, this'))"
| "handle S this GET_cats =
     (case CatsController_findAll S this of (r, this') \<Rightarrow> (map_sum id Many r, this'))"

fun serve ::
  "'s Store \<Rightarrow> 's CatsController \<Rightarrow> request list \<Rightarrow> (rejection + response) list \<times> 's CatsController" where
  "serve S this [] = ([], this)"
| "serve S this (q # qs) =
     (case handle S this q of (r, this') \<Rightarrow>
        (case serve S this' qs of (rs, this'') \<Rightarrow> (r # rs, this'')))"

section \<open>The AppController\<close>

text \<open>
  \<^verbatim>\<open>
  export class AppController {
    constructor(private readonly appService: AppService) {}
    @Get('ping')
    ping(@Headers('user-agent') userAgent: string): string { return `pong - ${userAgent}`; }
  }
  \<close>
\<close>

record 'a AppController =
  appService :: 'a

definition AppController_ping :: "'a AppController \<Rightarrow> string \<Rightarrow> string" where
  "AppController_ping this userAgent = ''pong - '' @ userAgent"

section \<open>A table for the repository\<close>

text \<open>
  Modelled from the spec: the table behind \<^verbatim>\<open>Repository<CatEntity>\<close> (TypeORM and the
  database are not among the sources). Section 4.1: create assigns a fresh unique id and
  a created timestamp equal to the current time, appends the resulting Cat to the
  collection and returns the stored Cat; findAll returns the full collection. Section 3:
  a Cat is never updated or deleted, and \<^verbatim>\<open>created\<close> is update-blocked; so the table has
  no operation that rewrites or removes a row. The table holds its rows, the next
  generated key and the database's current time.
\<close>

record Table =
  rows :: "Cat list"
  next_id :: int
  clock :: Date

definition table_save :: "Table \<Rightarrow> Cat \<Rightarrow> (rejection + Cat) \<times> Table" where
  "table_save db cat =
     (let stored = cat\<lparr>cat_id := Some (next_id db), created := Some (clock db)\<rparr>
      in (Inr stored, db\<lparr>rows := rows db @ [stored], next_id := next_id db + 1\<rparr>))"

definition table_find :: "Table \<Rightarrow> (rejection + Cat list) \<times> Table" where
  "table_find db = (Inr (rows db), db)"

definition table_Repository :: "Table Repository" where
  "table_Repository = \<lparr>repo_save = table_save, repo_find = table_find\<rparr>"

text \<open>
  Every row has a key below the next generated key, and no two rows have the same key.
\<close>

definition key_below :: "int \<Rightarrow> Cat \<Rightarrow> bool" where
  "key_below n r = (case cat_id r of None \<Rightarrow> False | Some i \<Rightarrow> i < n)"

definition keys_fresh :: "Table \<Rightarrow> bool" where
  "keys_fresh db = (distinct (map cat_id (rows db)) \<and> list_all (key_below (next_id db)) (rows db))"

section \<open>Comparing the responses of two backends\<close>











section \<open>The diagnostic endpoint\<close>

text \<open>
  C9: for every user-agent string \<open>s\<close>, \<^verbatim>\<open>GET /ping\<close> returns the string
  \<^verbatim>\<open>"pong - "\<close> followed by \<open>s\<close>, whatever the controller object holds.
\<close>

theorem ping_returns_pong_user_agent:
  "AppController_ping this s = ''pong - '' @ s"
  by (simp add: AppController_ping_def)

section \<open>The in-memory store\<close>

lemma cats_mem_create_each: "cats_mem (create_each_mem this cs) = cats_mem this @ cs"
  by (induction cs arbitrary: this) (simp_all add: CatsService_create_mem_def)

text \<open>
  C6: \<^verbatim>\<open>findAll\<close> of the in-memory store returns the whole array, leaves the store as it
  is, and after a sequence of \<^verbatim>\<open>create\<close> calls the array is what was there before
  followed by the created Cats in the order of the calls: nothing is dropped, filtered
  or reordered.
\<close>

theorem findAll_mem_insertion_order:
  "fst (CatsService_findAll_mem this) = cats_mem this
   \<and> snd (CatsService_findAll_mem this) = this
   \<and> fst (CatsService_findAll_mem (create_each_mem this cs)) = cats_mem this @ cs"
  by (simp add: CatsService_findAll_mem_def cats_mem_create_each)

text \<open>
  C3: starting from the empty in-memory store, after the \<open>N\<close> calls \<^verbatim>\<open>create(c)\<close> for
  \<open>c\<close> in \<open>cs\<close>, \<^verbatim>\<open>findAll\<close> returns \<open>N\<close> records, and the record at each position has
  the \<^verbatim>\<open>name\<close> and \<^verbatim>\<open>color\<close> of the call at that position: records and calls match one
  to one.
\<close>

theorem findAll_mem_after_creates:
  "length (fst (CatsService_findAll_mem (create_each_mem new_CatsService_mem cs))) = length cs
   \<and> map (\<lambda>c. (name c, color c))
         (fst (CatsService_findAll_mem (create_each_mem new_CatsService_mem cs)))
       = map (\<lambda>c. (name c, color c)) cs"
  by (simp add: CatsService_findAll_mem_def cats_mem_create_each new_CatsService_mem_def)

section \<open>The controller\<close>

text \<open>
  C4: for every store, every controller and every request, \<^verbatim>\<open>create\<close> and \<^verbatim>\<open>findAll\<close>
  of the controller return the result of the store's operation of the same name as it
  is, and the controller after the call is nothing but the store after the call: the
  controller has no field besides the injected store.
\<close>

theorem controller_delegates:
  fixes this :: "'s CatsController"
  shows "CatsController_create S this cat =
           (fst (store_create S (catsService this) cat),
            \<lparr>catsService = snd (store_create S (catsService this) cat)\<rparr>)
       \<and> CatsController_findAll S this =
           (fst (store_findAll S (catsService this)),
            \<lparr>catsService = snd (store_findAll S (catsService this))\<rparr>)"
  by (simp add: CatsController_create_def CatsController_findAll_def split: prod.split)

section \<open>Runs of requests\<close>

lemma snd_serve_Cons: "snd (serve S this (q # qs)) = snd (serve S (snd (handle S this q)) qs)"
  by (simp split: prod.split)

lemma fst_serve_Cons:
  "fst (serve S this (q # qs)) = fst (handle S this q) # fst (serve S (snd (handle S this q)) qs)"
  by (simp split: prod.split)

section \<open>Invariants of the repository over runs\<close>

lemma handle_mem_prefix:
  "\<exists>ys. cats_mem (catsService (snd (handle mem_Store m q))) = cats_mem (catsService m) @ ys"
  by (cases q) (simp_all add: CatsController_create_def CatsController_findAll_def mem_Store_def
      CatsService_create_mem_def CatsService_findAll_mem_def)

lemma serve_mem_prefix:
  "\<exists>ys. cats_mem (catsService (snd (serve mem_Store m qs))) = cats_mem (catsService m) @ ys"
proof (induction qs arbitrary: m)
  case Nil
  show ?case by simp
next
  case (Cons q qs)
  show ?case
    using handle_mem_prefix [of m q] Cons.IH [of "snd (handle mem_Store m q)"]
    unfolding snd_serve_Cons by auto
qed

lemma serve_mem_take:
  "take (length (cats_mem (catsService m))) (cats_mem (catsService (snd (serve mem_Store m qs))))
     = cats_mem (catsService m)"
  using serve_mem_prefix [of m qs] by auto

lemma handle_repo_repository:
  "repository (catsService (snd (handle (repo_Store R) d q))) =
     (case q of POST_cats c \<Rightarrow> snd (repo_save R (repository (catsService d)) c)
              | GET_cats \<Rightarrow> snd (repo_find R (repository (catsService d))))"
  by (cases q) (simp_all add: CatsController_create_def CatsController_findAll_def repo_Store_def
      CatsService_create_def CatsService_findAll_def split: prod.split)

lemma serve_repo_invariant:
  assumes sv: "\<And>db c. P db \<Longrightarrow> P (snd (repo_save R db c))"
      and fd: "\<And>db. P db \<Longrightarrow> P (snd (repo_find R db))"
  shows "P (repository (catsService d)) \<Longrightarrow>
         P (repository (catsService (snd (serve (repo_Store R) d qs))))"
proof (induction qs arbitrary: d)
  case Nil
  then show ?case by simp
next
  case (Cons q qs)
  have "P (repository (catsService (snd (handle (repo_Store R) d q))))"
    unfolding handle_repo_repository using Cons.prems sv fd by (cases q) simp_all
  then show ?case unfolding snd_serve_Cons by (rule Cons.IH)
qed

lemma table_create:
  "CatsService_create table_Repository svc cat =
     (Inr (cat\<lparr>cat_id := Some (next_id (repository svc)), created := Some (clock (repository svc))\<rparr>),
      svc\<lparr>repository := (repository svc)
        \<lparr>rows := rows (repository svc)
           @ [cat\<lparr>cat_id := Some (next_id (repository svc)),
                  created := Some (clock (repository svc))\<rparr>],
         next_id := next_id (repository svc) + 1\<rparr>\<rparr>)"
  by (simp add: CatsService_create_def table_Repository_def table_save_def Let_def)

lemma table_findAll:
  "CatsService_findAll table_Repository svc = (Inr (rows (repository svc)), svc)"
  by (simp add: CatsService_findAll_def table_Repository_def table_find_def)

lemma table_controller_create:
  "fst (CatsController_create (repo_Store table_Repository) ctl cat) =
     Inr (cat\<lparr>cat_id := Some (next_id (repository (catsService ctl))),
              created := Some (clock (repository (catsService ctl)))\<rparr>)"
  by (simp add: CatsController_create_def repo_Store_def table_create)

section \<open>The timestamp of a created Cat\<close>

text \<open>
  C1 as stated fails on the in-memory store: \<^verbatim>\<open>create\<close> returns the request's Cat, so
  the \<^verbatim>\<open>created\<close> of the response is the value the caller sent, here 1234; the
  controller returns that Cat.
\<close>

theorem created_is_caller_supplied_counterexample:
  "created (fst (CatsService_create_mem new_CatsService_mem
      \<lparr>cat_id = None, name = ''Tom'', color = Some ''black'', created = Some 1234\<rparr>)) = Some 1234
   \<and> fst (CatsController_create mem_Store \<lparr>catsService = new_CatsService_mem\<rparr>
      \<lparr>cat_id = None, name = ''Tom'', color = Some ''black'', created = Some 1234\<rparr>)
     = Inr \<lparr>cat_id = None, name = ''Tom'', color = Some ''black'', created = Some 1234\<rparr>"
  by (simp add: CatsService_create_mem_def CatsController_create_def mem_Store_def
      new_CatsService_mem_def)

text \<open>
  C1, amended: for every create request to the repository-backed store, on the table,
  the Cat returned by \<^verbatim>\<open>create\<close>, and hence by the controller over it, has the
  \<^verbatim>\<open>created\<close> that the store sets at the call, the current time of the table, and the
  row stored is that Cat. Whatever \<^verbatim>\<open>created\<close> the request carries (\<open>x\<close>, a value or
  none) is overwritten: it appears nowhere in the answer. The in-memory store sets no
  timestamp: \<^verbatim>\<open>create\<close>, and the controller over it, return the request's Cat as it is.
\<close>

theorem created_set_by_table_and_echoed_in_memory:
  "fst (CatsService_create table_Repository svc (cat\<lparr>created := x\<rparr>))
     = Inr (cat\<lparr>cat_id := Some (next_id (repository svc)),
                created := Some (clock (repository svc))\<rparr>)
   \<and> fst (CatsController_create (repo_Store table_Repository) ctl (cat\<lparr>created := x\<rparr>))
     = Inr (cat\<lparr>cat_id := Some (next_id (repository (catsService ctl))),
                created := Some (clock (repository (catsService ctl)))\<rparr>)
   \<and> map_sum id created (fst (CatsController_create (repo_Store table_Repository) ctl
                                (cat\<lparr>created := x\<rparr>)))
     = Inr (Some (clock (repository (catsService ctl))))
   \<and> rows (repository (snd (CatsService_create table_Repository svc (cat\<lparr>created := x\<rparr>))))
     = rows (repository svc)
       @ [cat\<lparr>cat_id := Some (next_id (repository svc)),
               created := Some (clock (repository svc))\<rparr>]
   \<and> fst (CatsService_create_mem this cat) = cat
   \<and> fst (CatsController_create mem_Store ctl' cat) = Inr cat"
proof -
  have "fst (CatsService_create_mem this cat) = cat
      \<and> fst (CatsController_create mem_Store ctl' cat) = Inr cat"
    by (simp add: CatsService_create_mem_def CatsController_create_def mem_Store_def)
  then show ?thesis
    by (simp add: table_create table_controller_create)
qed

text \<open>
  C8: a request with a \<^verbatim>\<open>name\<close> and no \<^verbatim>\<open>color\<close>. The controller over the
  repository-backed store on the table answers with a Cat and not with a rejection, and
  that Cat has no \<^verbatim>\<open>color\<close>: it is the request's Cat with the id and the timestamp of
  the store. Over the in-memory store the controller answers with the request's Cat,
  \<^verbatim>\<open>color\<close> absent.
\<close>

theorem create_without_color:
  "fst (CatsController_create (repo_Store table_Repository) ctl' (cat\<lparr>color := None\<rparr>))
     = Inr (cat\<lparr>cat_id := Some (next_id (repository (catsService ctl'))), color := None,
                created := Some (clock (repository (catsService ctl')))\<rparr>)
   \<and> map_sum id color
        (fst (CatsController_create (repo_Store table_Repository) ctl' (cat\<lparr>color := None\<rparr>)))
     = Inr None
   \<and> fst (CatsController_create mem_Store ctl (cat\<lparr>color := None\<rparr>)) = Inr (cat\<lparr>color := None\<rparr>)"
proof -
  have "fst (CatsController_create mem_Store ctl (cat\<lparr>color := None\<rparr>)) = Inr (cat\<lparr>color := None\<rparr>)"
    by (simp add: CatsService_create_mem_def CatsController_create_def mem_Store_def)
  then show ?thesis
    by (simp add: table_controller_create)
qed

section \<open>The ids of stored Cats\<close>

text \<open>
  C2 as stated fails on the in-memory store: it stores the request as it is and assigns
  no id. Two \<^verbatim>\<open>create\<close> calls with the same \<^verbatim>\<open>name\<close> and \<^verbatim>\<open>color\<close> leave two stored
  Cats with the same \<^verbatim>\<open>id\<close>, be it the same \<^verbatim>\<open>id\<close> in both requests or none in either.
\<close>

theorem mem_ids_not_unique_counterexample:
  "\<not> distinct (map cat_id (fst (CatsService_findAll_mem (create_each_mem new_CatsService_mem
      [\<lparr>cat_id = Some 1, name = ''Tom'', color = Some ''black'', created = None\<rparr>,
       \<lparr>cat_id = Some 1, name = ''Tom'', color = Some ''black'', created = None\<rparr>]))))
   \<and> \<not> distinct (map cat_id (fst (CatsService_findAll_mem (create_each_mem new_CatsService_mem
      [\<lparr>cat_id = None, name = ''Tom'', color = Some ''black'', created = None\<rparr>,
       \<lparr>cat_id = None, name = ''Tom'', color = Some ''black'', created = None\<rparr>]))))"
  by (simp add: CatsService_findAll_mem_def CatsService_create_mem_def new_CatsService_mem_def)

lemma keys_fresh_save: "keys_fresh db \<Longrightarrow> keys_fresh (snd (repo_save table_Repository db c))"
proof -
  assume fresh: "keys_fresh db"
  have below: "list_all (key_below (next_id db)) (rows db)"
    using fresh by (simp add: keys_fresh_def)
  have "Some (next_id db) \<notin> set (map cat_id (rows db))"
  proof
    assume "Some (next_id db) \<in> set (map cat_id (rows db))"
    then obtain r where "r \<in> set (rows db)" and "cat_id r = Some (next_id db)" by auto
    then show False using below by (auto simp: list_all_iff key_below_def)
  qed
  moreover have "list_all (key_below (next_id db + 1)) (rows db)"
    using below by (auto simp: list_all_iff key_below_def split: option.splits)
  ultimately show ?thesis
    using fresh
    by (simp add: keys_fresh_def table_Repository_def table_save_def Let_def key_below_def)
qed

lemma keys_fresh_find: "keys_fresh db \<Longrightarrow> keys_fresh (snd (repo_find table_Repository db))"
  by (simp add: table_Repository_def table_find_def)

lemma keys_fresh_serve:
  "keys_fresh (repository (catsService d)) \<Longrightarrow>
   keys_fresh (repository (catsService (snd (serve (repo_Store table_Repository) d qs))))"
  by (rule serve_repo_invariant [where P = keys_fresh]) (simp_all add: keys_fresh_save keys_fresh_find)

lemma keys_fresh_new:
  "keys_fresh (repository (catsService (snd (serve (repo_Store table_Repository)
      \<lparr>catsService = new_CatsService \<lparr>rows = [], next_id = n, clock = t\<rparr>\<rparr> qs))))"
  by (rule keys_fresh_serve) (simp add: keys_fresh_def new_CatsService_def)

lemma keys_fresh_ids:
  "keys_fresh db \<Longrightarrow> distinct (map cat_id (rows db)) \<and> None \<notin> set (map cat_id (rows db))"
  by (auto simp: keys_fresh_def list_all_iff key_below_def split: option.splits)

text \<open>
  C2, amended: the repository-backed store on the table gives every stored Cat an id,
  and after any run of requests on the empty table no two stored Cats have the same id;
  \<^verbatim>\<open>findAll\<close> returns exactly the stored Cats; and two \<^verbatim>\<open>create\<close> calls one after the
  other, with the same \<^verbatim>\<open>name\<close> and \<^verbatim>\<open>color\<close> or not, answer with different ids. The
  in-memory store assigns no id: after any sequence of \<^verbatim>\<open>create\<close> calls on the empty
  store the stored ids are those the requests carried, in order, so they are pairwise
  distinct exactly when the requests' ids are.
\<close>

theorem ids_unique_in_table_and_echoed_in_memory:
  "distinct (map cat_id (rows (repository (catsService (snd (serve (repo_Store table_Repository)
      \<lparr>catsService = new_CatsService \<lparr>rows = [], next_id = n, clock = t\<rparr>\<rparr> qs))))))
   \<and> None \<notin> set (map cat_id (rows (repository (catsService (snd (serve (repo_Store table_Repository)
      \<lparr>catsService = new_CatsService \<lparr>rows = [], next_id = n, clock = t\<rparr>\<rparr> qs))))))
   \<and> fst (CatsService_findAll table_Repository svc) = Inr (rows (repository svc))
   \<and> map_sum id cat_id
        (fst (CatsService_create table_Repository
               (snd (CatsService_create table_Repository svc c)) c'))
       \<noteq> map_sum id cat_id (fst (CatsService_create table_Repository svc c))
   \<and> map cat_id (fst (CatsService_findAll_mem (create_each_mem new_CatsService_mem cs)))
       = map cat_id cs
   \<and> distinct (map cat_id (fst (CatsService_findAll_mem (create_each_mem new_CatsService_mem cs))))
       = distinct (map cat_id cs)"
  using keys_fresh_ids [OF keys_fresh_new [of n t qs]]
  by (simp add: table_create table_findAll CatsService_findAll_mem_def cats_mem_create_each
      new_CatsService_mem_def)

section \<open>Existing records keep their timestamp\<close>

lemma table_rows_prefix_serve:
  "\<exists>ys. rows (repository (catsService (snd (serve (repo_Store table_Repository) d qs))))
        = rows (repository (catsService d)) @ ys"
proof (rule serve_repo_invariant [where P = "\<lambda>db. \<exists>ys. rows db = rows (repository (catsService d)) @ ys"])
  show "\<exists>ys. rows (snd (repo_save table_Repository db c)) = rows (repository (catsService d)) @ ys"
    if "\<exists>ys. rows db = rows (repository (catsService d)) @ ys" for db c
    using that by (auto simp: table_Repository_def table_save_def Let_def)
  show "\<exists>ys. rows (snd (repo_find table_Repository db)) = rows (repository (catsService d)) @ ys"
    if "\<exists>ys. rows db = rows (repository (catsService d)) @ ys" for db
    using that by (simp add: table_Repository_def table_find_def)
  show "\<exists>ys. rows (repository (catsService d)) = rows (repository (catsService d)) @ ys"
    by simp
qed

lemma table_rows_take_serve:
  "take (length (rows (repository (catsService d))))
        (rows (repository (catsService (snd (serve (repo_Store table_Repository) d qs)))))
     = rows (repository (catsService d))"
  using table_rows_prefix_serve [of d qs] by auto

text \<open>
  C7: no run of requests changes the \<^verbatim>\<open>created\<close> of a record that exists. For every
  state of the table and every run of requests on the repository-backed store, the rows
  that were in the table before the run are in it after the run, at the same positions,
  with the same \<^verbatim>\<open>created\<close> and every other column as it was. The same holds of the
  array of the in-memory store.
\<close>

theorem created_never_changes:
  "map created (take (length (rows (repository (catsService d))))
        (rows (repository (catsService (snd (serve (repo_Store table_Repository) d qs))))))
     = map created (rows (repository (catsService d)))
   \<and> take (length (rows (repository (catsService d))))
        (rows (repository (catsService (snd (serve (repo_Store table_Repository) d qs)))))
     = rows (repository (catsService d))
   \<and> take (length (cats_mem (catsService m))) (cats_mem (catsService (snd (serve mem_Store m qs'))))
     = cats_mem (catsService m)"
  by (simp add: table_rows_take_serve serve_mem_take)

section \<open>The two backends behind the controller\<close>














section \<open>The array of the repository-backed service\<close>

lemma handle_cats:
  "handle (repo_Store R) \<lparr>catsService = (svc\<lparr>cats := xs\<rparr>)\<rparr> q =
     (fst (handle (repo_Store R) \<lparr>catsService = svc\<rparr> q),
      \<lparr>catsService = (catsService (snd (handle (repo_Store R) \<lparr>catsService = svc\<rparr> q)))\<lparr>cats := xs\<rparr>\<rparr>)"
  by (cases q) (simp_all add: CatsController_create_def CatsController_findAll_def repo_Store_def
      CatsService_create_def CatsService_findAll_def split: prod.split)

lemma serve_cats:
  "serve (repo_Store R) \<lparr>catsService = (svc\<lparr>cats := xs\<rparr>)\<rparr> qs =
     (fst (serve (repo_Store R) \<lparr>catsService = svc\<rparr> qs),
      \<lparr>catsService = (catsService (snd (serve (repo_Store R) \<lparr>catsService = svc\<rparr> qs)))\<lparr>cats := xs\<rparr>\<rparr>)"
proof (induction qs arbitrary: svc)
  case Nil
  show ?case by simp
next
  case (Cons q qs)
  define h where "h = handle (repo_Store R) \<lparr>catsService = svc\<rparr> q"
  define next_svc where "next_svc = catsService (snd h)"
  have unfold_h: "snd h = \<lparr>catsService = next_svc\<rparr>"
    by (simp add: next_svc_def)
  have step: "handle (repo_Store R) \<lparr>catsService = (svc\<lparr>cats := xs\<rparr>)\<rparr> q
                = (fst h, \<lparr>catsService = (next_svc\<lparr>cats := xs\<rparr>)\<rparr>)"
    unfolding h_def next_svc_def by (rule handle_cats)
  have rest: "serve (repo_Store R) \<lparr>catsService = (next_svc\<lparr>cats := xs\<rparr>)\<rparr> qs =
     (fst (serve (repo_Store R) (snd h) qs),
      \<lparr>catsService = (catsService (snd (serve (repo_Store R) (snd h) qs)))\<lparr>cats := xs\<rparr>\<rparr>)"
    unfolding unfold_h by (rule Cons.IH)
  have "fst (serve (repo_Store R) \<lparr>catsService = (svc\<lparr>cats := xs\<rparr>)\<rparr> (q # qs))
          = fst (serve (repo_Store R) \<lparr>catsService = svc\<rparr> (q # qs))"
    unfolding fst_serve_Cons step h_def [symmetric] by (simp add: rest)
  moreover have "snd (serve (repo_Store R) \<lparr>catsService = (svc\<lparr>cats := xs\<rparr>)\<rparr> (q # qs))
          = \<lparr>catsService = (catsService (snd (serve (repo_Store R) \<lparr>catsService = svc\<rparr> (q # qs))))\<lparr>cats := xs\<rparr>\<rparr>"
    unfolding snd_serve_Cons step h_def [symmetric] by (simp add: rest)
  ultimately show ?case by (simp add: prod_eq_iff)
qed

lemma serve_keeps_cats:
  "cats (catsService (snd (serve (repo_Store R) \<lparr>catsService = (svc\<lparr>cats := xs\<rparr>)\<rparr> qs))) = xs"
  by (simp add: serve_cats)

lemma serve_new_cats:
  "cats (catsService (snd (serve (repo_Store R) \<lparr>catsService = new_CatsService db\<rparr> qs))) = []"
  using serve_keeps_cats [where R = R and svc = "new_CatsService db" and xs = "[]" and qs = qs]
  by (simp add: new_CatsService_def)

text \<open>
  C10: in the repository-backed service the array \<^verbatim>\<open>cats\<close> is dead. \<^verbatim>\<open>create\<close> and
  \<^verbatim>\<open>findAll\<close> leave it as it is, so after any run of requests on a new service it is
  still empty; and the responses of a run are the same whatever the array holds.
\<close>

theorem cats_array_is_dead:
  "cats (catsService (snd (serve (repo_Store R) \<lparr>catsService = new_CatsService db\<rparr> qs))) = []
   \<and> cats (snd (CatsService_create R this cat)) = cats this
   \<and> cats (snd (CatsService_findAll R this)) = cats this
   \<and> fst (serve (repo_Store R) \<lparr>catsService = (svc\<lparr>cats := xs\<rparr>)\<rparr> qs)
       = fst (serve (repo_Store R) \<lparr>catsService = svc\<rparr> qs)"
  by (simp add: serve_new_cats serve_cats CatsService_create_def CatsService_findAll_def
      split: prod.split)

end
